theory Spec2Isabelle
  imports Complex_Main
begin

section \<open>A shallow embedding of \<^verbatim>\<open>photinia/widgets.py\<close>\<close>

text \<open>
  The module builds TensorFlow graphs. What the framework owns is modelled only as far
  as the module reads or writes it:
  \<^item> the name of the current variable scope (\<^verbatim>\<open>tf.get_variable_scope().name\<close>),
  \<^item> the list of the graph's variables, each with its name and its trainable flag
    (\<^verbatim>\<open>tf.global_variables()\<close>, \<^verbatim>\<open>tf.trainable_variables()\<close>),
  \<^item> the tensor operations, which are parameters of the model (a record of functions
    over an arbitrary tensor type).
  Initial values of variables, operation names and the framework's renaming of
  clashing graph names are not modelled; the framework's own argument checks are taken
  to succeed. Python integers are \<open>int\<close>; \<^verbatim>\<open>math.ceil(a / b)\<close> is the ceiling of
  the exact quotient (the rounding of Python's float division is not modelled).
  Strings are lists of 8-bit characters.
\<close>

subsection \<open>Exceptions and dynamically typed arguments\<close>

datatype error =
    ValueError string
  | TypeError
  | AttributeError
  | IndexError
  | KeyError string
  | RuntimeError string
  | NotImplementedError
  | ZeroDivisionError

text \<open>The \<^verbatim>\<open>name\<close> argument of a constructor: \<^verbatim>\<open>None\<close>, a string, or some
  object that is not a string.\<close>

datatype name_arg = PyNone | PyStr string | PyNotStr

text \<open>A size argument: a tuple or list of integers, or a single integer.\<close>

datatype size_arg = PySeq "int list" | PyInt int

subsection \<open>String helpers\<close>

text \<open>\<^verbatim>\<open>str.isspace\<close> on the code points below 256.\<close>

definition isspace :: "char \<Rightarrow> bool" where
  "isspace c = (let n = (of_char c :: nat) in
     (9 \<le> n \<and> n \<le> 13) \<or> (28 \<le> n \<and> n \<le> 32) \<or> n = 133 \<or> n = 160)"

definition strip :: "string \<Rightarrow> string" where
  "strip s = rev (dropWhile isspace (rev (dropWhile isspace s)))"

definition endswith :: "string \<Rightarrow> string \<Rightarrow> bool" where
  "endswith s suffix = (length suffix \<le> length s \<and> drop (length s - length suffix) s = suffix)"

definition startswith :: "string \<Rightarrow> string \<Rightarrow> bool" where
  "startswith s p = (take (length p) s = p)"

text \<open>\<^verbatim>\<open>str.lower\<close> on ASCII letters.\<close>

definition lower_char :: "char \<Rightarrow> char" where
  "lower_char c = (let n = (of_char c :: nat) in
     if 65 \<le> n \<and> n \<le> 90 then char_of (n + 32) else c)"

definition lower :: "string \<Rightarrow> string" where
  "lower s = map lower_char s"

text \<open>\<^verbatim>\<open>'%s' % x\<close> for an optional string: \<^verbatim>\<open>None\<close> prints as \<^verbatim>\<open>None\<close>.\<close>

definition str_of :: "string option \<Rightarrow> string" where
  "str_of x = (case x of None \<Rightarrow> ''None'' | Some s \<Rightarrow> s)"

subsection \<open>The widget object, the graph and the registry\<close>

record widget =
  self_name :: "string option"
  self_scope :: string
  self_full_name :: "string option"
  self_prefix :: "string option"
  self_built :: bool

record tf_variable =
  var_name :: string
  var_trainable :: bool

text \<open>The mutable state outside the widget: the framework's current variable scope and
  variables, and the class attribute \<^verbatim>\<open>Widget.INSTANCES\<close>. The registry stores object
  references in Python; here it stores the base-class fields of the registered widget
  as they are at registration.\<close>

record world =
  var_scope :: string
  global_variables :: "tf_variable list"
  INSTANCES :: "string \<rightharpoonup> widget"

text \<open>A method that may raise returns the exception or its value, together with the
  object and the state as the call leaves them.\<close>

type_synonym 'a build_hook =
  "'a widget_scheme \<Rightarrow> world \<Rightarrow> (error + unit) \<times> 'a widget_scheme \<times> world"

text \<open>\<^verbatim>\<open>tf.Variable(..., name=n)\<close> inside the current scope: the name the variable
  gets, and the graph with the variable added.\<close>

definition variable_name :: "world \<Rightarrow> string \<Rightarrow> string" where
  "variable_name s n = (if var_scope s = [] then n else var_scope s @ ''/'' @ n) @ '':0''"

definition tf_Variable :: "string \<Rightarrow> bool \<Rightarrow> world \<Rightarrow> world" where
  "tf_Variable n trainable s =
     s\<lparr>global_variables := global_variables s @
          [\<lparr>var_name = variable_name s n, var_trainable = trainable\<rparr>]\<rparr>"

text \<open>The scope name that \<^verbatim>\<open>with tf.variable_scope(n)\<close> opens below the current one.\<close>

definition variable_scope :: "string \<Rightarrow> string \<Rightarrow> string" where
  "variable_scope cur n = (if cur = [] then n else cur @ ''/'' @ n)"

subsection \<open>\<^verbatim>\<open>Widget.__init__\<close> and \<^verbatim>\<open>Widget.build\<close>\<close>

text \<open>Lines 86 to 90: the check of the name.\<close>

definition check_name :: "name_arg \<Rightarrow> error + string option" where
  "check_name name =
     (case name of
        PyNone \<Rightarrow> Inr None
      | PyNotStr \<Rightarrow> Inl (ValueError ''Widget name must be specified with string.'')
      | PyStr n \<Rightarrow>
          if length (strip n) \<noteq> length n \<or> n = []
          then Inl (ValueError ''Widget name cannot be empty or contain space characters.'')
          else Inr (Some n))"

text \<open>Lines 123 to 130: \<^verbatim>\<open>scope + name\<close> raises TypeError when the name is
  \<^verbatim>\<open>None\<close>, the \<^verbatim>\<open>%\<close> format does not.\<close>

definition make_full_name :: "string \<Rightarrow> string option \<Rightarrow> error + string option" where
  "make_full_name scope name =
     (if scope = [] then Inr name
      else if endswith scope ''/'' then
        (case name of None \<Rightarrow> Inl TypeError | Some n \<Rightarrow> Inr (Some (scope @ n)))
      else Inr (Some (scope @ ''/'' @ str_of name)))"

definition duplicated :: "string \<Rightarrow> error" where
  "duplicated full_name = ValueError (''Duplicated widget name '' @ full_name @ ''.'')"

text \<open>Lines 135 to 139, the block under \<^verbatim>\<open>Widget.LOCK\<close>.\<close>

definition register :: "string \<Rightarrow> 'a widget_scheme \<Rightarrow> world \<Rightarrow> (error + unit) \<times> world" where
  "register full_name self s =
     (if full_name \<in> dom (INSTANCES s) then (Inl (duplicated full_name), s)
      else (Inr (), s\<lparr>INSTANCES := (INSTANCES s)(full_name \<mapsto> widget.truncate self)\<rparr>))"

text \<open>Lines 132 to 134: the scope is entered, the subclass's \<^verbatim>\<open>_build\<close> runs, the
  flag is set, and the scope is left again, also when \<^verbatim>\<open>_build\<close> raises.
  \<^verbatim>\<open>tf.variable_scope(None)\<close> raises.\<close>

definition build_in_scope ::
  "'a build_hook \<Rightarrow> 'a widget_scheme \<Rightarrow> world \<Rightarrow> (error + unit) \<times> 'a widget_scheme \<times> world" where
  "build_in_scope hook self s =
     (case self_name self of
        None \<Rightarrow> (Inl TypeError, self, s)
      | Some n \<Rightarrow>
          (case hook self (s\<lparr>var_scope := variable_scope (var_scope s) n\<rparr>) of
             (Inl e, self', s') \<Rightarrow> (Inl e, self', s'\<lparr>var_scope := var_scope s\<rparr>)
           | (Inr u, self', s') \<Rightarrow>
               (Inr (), self'\<lparr>self_built := True\<rparr>, s'\<lparr>var_scope := var_scope s\<rparr>)))"

text \<open>The widget as lines 123 to 131 leave it when they do not raise.\<close>

definition named :: "'a widget_scheme \<Rightarrow> world \<Rightarrow> string \<Rightarrow> 'a widget_scheme" where
  "named self s full_name =
     self\<lparr>self_scope := var_scope s, self_full_name := Some full_name,
          self_prefix := Some (full_name @ ''/'')\<rparr>"

text \<open>Lines 112 to 139. \<^verbatim>\<open>None + '/'\<close> raises TypeError. The registry check uses
  the full name computed before \<^verbatim>\<open>_build\<close> ran: the \<^verbatim>\<open>_build\<close> methods of the
  module assign no attribute of the base class.\<close>

definition build ::
  "'a build_hook \<Rightarrow> 'a widget_scheme \<Rightarrow> world \<Rightarrow> (error + unit) \<times> 'a widget_scheme \<times> world" where
  "build hook self s =
     (if self_built self then (Inr (), self, s)
      else
        case make_full_name (var_scope s) (self_name self) of
          Inl e \<Rightarrow> (Inl e, self\<lparr>self_scope := var_scope s\<rparr>, s)
        | Inr None \<Rightarrow>
            (Inl TypeError, self\<lparr>self_scope := var_scope s, self_full_name := None\<rparr>, s)
        | Inr (Some full_name) \<Rightarrow>
            (case build_in_scope hook (named self s full_name) s of
               (Inl e, self', s') \<Rightarrow> (Inl e, self', s')
             | (Inr u, self', s') \<Rightarrow>
                 (case register full_name self' s' of
                    (Inl e, s'') \<Rightarrow> (Inl e, self', s'')
                  | (Inr u', s'') \<Rightarrow> (Inr (), self', s''))))"

text \<open>Lines 86 to 97. \<open>self\<close> carries the fields the subclass constructor has set
  before it calls the base constructor; the object is lost when the constructor
  raises, the state is not.\<close>

definition Widget_init ::
  "'a build_hook \<Rightarrow> 'a widget_scheme \<Rightarrow> name_arg \<Rightarrow> bool \<Rightarrow> world
     \<Rightarrow> (error + 'a widget_scheme) \<times> world" where
  "Widget_init hook self name do_build s =
     (case check_name name of
        Inl e \<Rightarrow> (Inl e, s)
      | Inr nm \<Rightarrow>
          let self1 = self\<lparr>self_name := nm, self_scope := [], self_full_name := None,
                           self_prefix := None, self_built := False\<rparr> in
          if do_build then
            (case build hook self1 s of
               (Inl e, self2, s') \<Rightarrow> (Inl e, s')
             | (Inr u, self2, s') \<Rightarrow> (Inr self2, s'))
          else (Inr self1, s))"

text \<open>Line 150: the abstract \<^verbatim>\<open>Widget._build\<close>.\<close>

definition Widget_build :: "'a build_hook" where
  "Widget_build self s = (Inl NotImplementedError, self, s)"

text \<open>An object before any constructor has run.\<close>

definition blank :: widget where
  "blank = \<lparr>self_name = None, self_scope = [], self_full_name = None,
            self_prefix = None, self_built = False\<rparr>"

subsection \<open>Output sizes of convolution and pooling\<close>

text \<open>\<^verbatim>\<open>math.ceil(a / b)\<close>: the division raises when \<open>b\<close> is zero.\<close>

definition math_ceil_div :: "int \<Rightarrow> int \<Rightarrow> error + int" where
  "math_ceil_div a b =
     (if b = 0 then Inl ZeroDivisionError else Inr \<lceil>real_of_int a / real_of_int b\<rceil>)"

text \<open>Lines 484 to 489, 643 to 648 and 752 to 757 are the same statements: the height
  is computed first, then the width.\<close>

definition output_hw ::
  "string \<Rightarrow> int \<Rightarrow> int \<Rightarrow> int \<Rightarrow> int \<Rightarrow> int \<Rightarrow> int \<Rightarrow> error + int \<times> int" where
  "output_hw padding input_height input_width filter_height filter_width
       stride_height stride_width =
     (if padding = ''SAME'' then
        (case math_ceil_div input_height stride_height of
           Inl e \<Rightarrow> Inl e
         | Inr h \<Rightarrow>
             (case math_ceil_div input_width stride_width of
                Inl e \<Rightarrow> Inl e
              | Inr w \<Rightarrow> Inr (h, w)))
      else
        (case math_ceil_div (input_height - filter_height + 1) stride_height of
           Inl e \<Rightarrow> Inl e
         | Inr h \<Rightarrow>
             (case math_ceil_div (input_width - filter_width + 1) stride_width of
                Inl e \<Rightarrow> Inl e
              | Inr w \<Rightarrow> Inr (h, w))))"

subsection \<open>\<^verbatim>\<open>Conv2D\<close>\<close>

record conv2d = widget +
  conv_input_height :: int
  conv_input_width :: int
  conv_input_channels :: int
  conv_output_channels :: int
  conv_filter_height :: int
  conv_filter_width :: int
  conv_stride_height :: int
  conv_stride_width :: int
  conv_padding :: string
  conv_flat_output :: bool
  conv_output_height :: int
  conv_output_width :: int
  conv_flat_size :: int

text \<open>Lines 553 to 572: the variables \<^verbatim>\<open>w\<close> and \<^verbatim>\<open>b\<close>.\<close>

definition Conv2D_build :: "'a build_hook" where
  "Conv2D_build self s = (Inr (), self, tf_Variable ''b'' True (tf_Variable ''w'' True s))"

text \<open>Lines 469 to 491.\<close>

definition Conv2D_init ::
  "name_arg \<Rightarrow> size_arg \<Rightarrow> int \<Rightarrow> int \<Rightarrow> int \<Rightarrow> int \<Rightarrow> int \<Rightarrow> string \<Rightarrow> bool \<Rightarrow> world
     \<Rightarrow> (error + conv2d) \<times> world" where
  "Conv2D_init name input_size output_channels filter_height filter_width
       stride_height stride_width padding flat_output s =
     (case input_size of
        PyInt k \<Rightarrow> (Inl (ValueError ''input_size should be tuple or list with 3 elements.''), s)
      | PySeq xs \<Rightarrow>
          if length xs \<noteq> 3
          then (Inl (ValueError ''input_size should be tuple or list with 3 elements.''), s)
          else
            (case output_hw padding (xs ! 0) (xs ! 1) filter_height filter_width
                    stride_height stride_width of
               Inl e \<Rightarrow> (Inl e, s)
             | Inr (h, w) \<Rightarrow>
                 Widget_init Conv2D_build
                   \<lparr>self_name = None, self_scope = [], self_full_name = None,
                    self_prefix = None, self_built = False,
                    conv_input_height = xs ! 0, conv_input_width = xs ! 1,
                    conv_input_channels = xs ! 2, conv_output_channels = output_channels,
                    conv_filter_height = filter_height, conv_filter_width = filter_width,
                    conv_stride_height = stride_height, conv_stride_width = stride_width,
                    conv_padding = padding, conv_flat_output = flat_output,
                    conv_output_height = h, conv_output_width = w,
                    conv_flat_size = h * w * output_channels\<rparr>
                   name True s))"

subsection \<open>\<^verbatim>\<open>Pool2D\<close>\<close>

record pool2d = widget +
  pool_input_size :: size_arg
  pool_filter_height :: int
  pool_filter_width :: int
  pool_stride_height :: int
  pool_stride_width :: int
  pool_padding :: string
  pool_pool_type :: string
  pool_input_height :: int
  pool_input_width :: int
  pool_input_channels :: int
  pool_output_height :: int
  pool_output_width :: int
  pool_flat_size :: int

text \<open>Lines 684 and 685: \<^verbatim>\<open>pass\<close>.\<close>

definition Pool2D_build :: "'a build_hook" where
  "Pool2D_build self s = (Inr (), self, s)"

text \<open>Lines 628 to 650. The pooling type is checked before the input size is
  indexed; indexing raises on an object that is no sequence and on a short one.\<close>

definition Pool2D_init ::
  "name_arg \<Rightarrow> size_arg \<Rightarrow> int \<Rightarrow> int \<Rightarrow> int \<Rightarrow> int \<Rightarrow> string \<Rightarrow> string \<Rightarrow> world
     \<Rightarrow> (error + pool2d) \<times> world" where
  "Pool2D_init name input_size filter_height filter_width stride_height stride_width
       padding pool_type s =
     (let pool_type = lower pool_type in
      if pool_type \<notin> {''max'', ''avg''}
      then (Inl (ValueError (''pool_type should be one of {\"max\", \"avg\"}, but got '' @ pool_type)), s)
      else
        (case input_size of
           PyInt k \<Rightarrow> (Inl TypeError, s)
         | PySeq xs \<Rightarrow>
             if length xs < 3 then (Inl IndexError, s)
             else
               (case output_hw padding (xs ! 0) (xs ! 1) filter_height filter_width
                       stride_height stride_width of
                  Inl e \<Rightarrow> (Inl e, s)
                | Inr (h, w) \<Rightarrow>
                    Widget_init Pool2D_build
                      \<lparr>self_name = None, self_scope = [], self_full_name = None,
                       self_prefix = None, self_built = False,
                       pool_input_size = input_size,
                       pool_filter_height = filter_height, pool_filter_width = filter_width,
                       pool_stride_height = stride_height, pool_stride_width = stride_width,
                       pool_padding = padding, pool_pool_type = pool_type,
                       pool_input_height = xs ! 0, pool_input_width = xs ! 1,
                       pool_input_channels = xs ! 2,
                       pool_output_height = h, pool_output_width = w,
                       pool_flat_size = h * w * (xs ! 2)\<rparr>
                      name True s)))"

subsection \<open>\<^verbatim>\<open>GroupConv2D\<close>\<close>

record groupconv2d = widget +
  gconv_input_height :: int
  gconv_input_width :: int
  gconv_input_channels :: int
  gconv_output_channels :: int
  gconv_num_groups :: int
  gconv_filter_height :: int
  gconv_filter_width :: int
  gconv_stride_height :: int
  gconv_stride_width :: int
  gconv_data_format :: string
  gconv_padding :: string
  gconv_flat_output :: bool
  gconv_output_height :: int
  gconv_output_width :: int
  gconv_flat_size :: int

text \<open>Lines 825 to 844: the shape of \<^verbatim>\<open>w\<close> divides by the number of groups
  before any variable exists.\<close>

definition GroupConv2D_build ::
  "'a groupconv2d_scheme \<Rightarrow> world \<Rightarrow> (error + unit) \<times> 'a groupconv2d_scheme \<times> world" where
  "GroupConv2D_build self s =
     (if gconv_num_groups self = 0 then (Inl ZeroDivisionError, self, s)
      else (Inr (), self, tf_Variable ''b'' True (tf_Variable ''w'' True s)))"

text \<open>Lines 735 to 759.\<close>

definition GroupConv2D_init ::
  "name_arg \<Rightarrow> size_arg \<Rightarrow> int \<Rightarrow> int \<Rightarrow> int \<Rightarrow> int \<Rightarrow> int \<Rightarrow> int \<Rightarrow> string \<Rightarrow> string \<Rightarrow> bool
     \<Rightarrow> world \<Rightarrow> (error + groupconv2d) \<times> world" where
  "GroupConv2D_init name input_size output_channels num_groups filter_height filter_width
       stride_height stride_width padding data_format flat_output s =
     (case input_size of
        PyInt k \<Rightarrow> (Inl (ValueError ''input_size should be tuple or list with 3 elements.''), s)
      | PySeq xs \<Rightarrow>
          if length xs \<noteq> 3
          then (Inl (ValueError ''input_size should be tuple or list with 3 elements.''), s)
          else
            (case output_hw padding (xs ! 0) (xs ! 1) filter_height filter_width
                    stride_height stride_width of
               Inl e \<Rightarrow> (Inl e, s)
             | Inr (h, w) \<Rightarrow>
                 Widget_init GroupConv2D_build
                   \<lparr>self_name = None, self_scope = [], self_full_name = None,
                    self_prefix = None, self_built = False,
                    gconv_input_height = xs ! 0, gconv_input_width = xs ! 1,
                    gconv_input_channels = xs ! 2, gconv_output_channels = output_channels,
                    gconv_num_groups = num_groups,
                    gconv_filter_height = filter_height, gconv_filter_width = filter_width,
                    gconv_stride_height = stride_height, gconv_stride_width = stride_width,
                    gconv_data_format = data_format,
                    gconv_padding = padding, gconv_flat_output = flat_output,
                    gconv_output_height = h, gconv_output_width = w,
                    gconv_flat_size = h * w * output_channels\<rparr>
                   name True s))"

text \<open>An empty graph and registry, at the root scope.\<close>

definition world0 :: world where
  "world0 = \<lparr>var_scope = [], global_variables = [], INSTANCES = Map.empty\<rparr>"

subsection \<open>\<^verbatim>\<open>Widget.setup\<close> and the variables of a widget\<close>

text \<open>Lines 159 to 169. A \<^verbatim>\<open>_setup\<close> method only adds operations to the graph, and
  \<^verbatim>\<open>with tf.variable_scope(self._prefix)\<close> restores the scope it changes, so the
  modelled state plays no part. \<^verbatim>\<open>tf.variable_scope(None)\<close> raises.\<close>

definition Widget_setup ::
  "('a widget_scheme \<Rightarrow> 'x \<Rightarrow> error + 'y) \<Rightarrow> 'a widget_scheme \<Rightarrow> 'x \<Rightarrow> error + 'y" where
  "Widget_setup hook self args =
     (if \<not> self_built self
      then Inl (RuntimeError ''This widget has not been built. Please build first.'')
      else
        (case self_name self of
           None \<Rightarrow> hook self args
         | Some n \<Rightarrow>
             (case self_prefix self of
                None \<Rightarrow> Inl TypeError
              | Some p \<Rightarrow> hook self args)))"

text \<open>The list comprehension of lines 198 and 210: \<^verbatim>\<open>str.startswith(None)\<close> raises
  TypeError as soon as there is a variable to test.\<close>

definition with_prefix :: "string option \<Rightarrow> tf_variable list \<Rightarrow> error + tf_variable list" where
  "with_prefix prefix vars =
     (case prefix of
        None \<Rightarrow> (if vars = [] then Inr [] else Inl TypeError)
      | Some p \<Rightarrow> Inr (filter (\<lambda>var. startswith (var_name var) p) vars))"

text \<open>Lines 194 to 198.\<close>

definition get_variables :: "'a widget_scheme \<Rightarrow> world \<Rightarrow> error + tf_variable list" where
  "get_variables self s =
     (if self_name self = None then Inr []
      else with_prefix (self_prefix self) (global_variables s))"

text \<open>Lines 207 to 210.\<close>

definition get_trainable_variables :: "'a widget_scheme \<Rightarrow> world \<Rightarrow> error + tf_variable list" where
  "get_trainable_variables self s =
     (if self_name self = None then Inr []
      else with_prefix (self_prefix self) (filter var_trainable (global_variables s)))"




subsection \<open>Tensor operations\<close>

text \<open>The framework's operations on tensors of some type \<open>'t\<close>; \<open>tf_handle\<close> gives
  the tensor that stands for the variable of a given name.\<close>

record 't tf_ops =
  tf_matmul :: "'t \<Rightarrow> 't \<Rightarrow> 't"
  tf_add :: "'t \<Rightarrow> 't \<Rightarrow> 't"
  tf_multiply :: "'t \<Rightarrow> 't \<Rightarrow> 't"
  tf_subtract :: "'t \<Rightarrow> 't \<Rightarrow> 't"
  tf_sigmoid :: "'t \<Rightarrow> 't"
  tf_constant :: "real \<Rightarrow> 't"
  tf_handle :: "string \<Rightarrow> 't"

text \<open>Lines 19 to 46: \<^verbatim>\<open>variable(name, initial_value)\<close>.\<close>

definition variable :: "'t tf_ops \<Rightarrow> string \<Rightarrow> world \<Rightarrow> 't \<times> world" where
  "variable ops n s = (tf_handle ops (variable_name s n), tf_Variable n True s)"

subsection \<open>\<^verbatim>\<open>Gate\<close>\<close>

text \<open>\<^verbatim>\<open>'%d' % i\<close> for a natural number.\<close>

fun str_nat :: "nat \<Rightarrow> string" where
  "str_nat n =
     (if n < 10 then [char_of (48 + n)]
      else str_nat (n div 10) @ [char_of (48 + n mod 10)])"

declare str_nat.simps [simp del]

record 't gate = widget +
  gate_input_sizes :: "int list"
  gate_output_size :: int
  gate_w_list :: "'t list"
  gate_b :: "'t option"

text \<open>Lines 1890 to 1893, the loop over \<^verbatim>\<open>enumerate(self._input_sizes)\<close>.\<close>

fun Gate_build_loop ::
  "'t tf_ops \<Rightarrow> nat \<Rightarrow> int list \<Rightarrow> 't list \<Rightarrow> world \<Rightarrow> 't list \<times> world" where
  "Gate_build_loop ops i [] w_list s = (w_list, s)"
| "Gate_build_loop ops i (input_size # rest) w_list s =
     (case variable ops (''w_'' @ str_nat i) s of
        (w, s') \<Rightarrow> Gate_build_loop ops (i + 1) rest (w_list @ [w]) s')"

text \<open>Lines 1889 to 1894.\<close>

definition Gate_build ::
  "'t tf_ops \<Rightarrow> ('t, 'a) gate_scheme \<Rightarrow> world
     \<Rightarrow> (error + unit) \<times> ('t, 'a) gate_scheme \<times> world" where
  "Gate_build ops self s =
     (case Gate_build_loop ops 0 (gate_input_sizes self) [] s of
        (w_list, s') \<Rightarrow>
          (case variable ops ''b'' s' of
             (b, s'') \<Rightarrow> (Inr (), self\<lparr>gate_w_list := w_list, gate_b := Some b\<rparr>, s'')))"

text \<open>Lines 1880 to 1886.\<close>

definition Gate_init ::
  "'t tf_ops \<Rightarrow> name_arg \<Rightarrow> size_arg \<Rightarrow> int \<Rightarrow> world \<Rightarrow> (error + 't gate) \<times> world" where
  "Gate_init ops name input_sizes output_size s =
     Widget_init (Gate_build ops)
       \<lparr>self_name = None, self_scope = [], self_full_name = None,
        self_prefix = None, self_built = False,
        gate_input_sizes = (case input_sizes of PySeq xs \<Rightarrow> xs | PyInt k \<Rightarrow> [k]),
        gate_output_size = output_size, gate_w_list = [], gate_b = None\<rparr>
       name True s"

text \<open>Lines 1899 to 1904: the sum of the products, \<^verbatim>\<open>None\<close> before the first one.
  After the check of line 1897 the index \<open>i\<close> runs over both lists.\<close>

fun Gate_sum :: "'t tf_ops \<Rightarrow> 't option \<Rightarrow> ('t \<times> 't) list \<Rightarrow> 't option" where
  "Gate_sum ops y [] = y"
| "Gate_sum ops y ((x, w) # rest) =
     (case y of
        None \<Rightarrow> Gate_sum ops (Some (tf_matmul ops x w)) rest
      | Some y' \<Rightarrow> Gate_sum ops (Some (tf_add ops y' (tf_matmul ops x w))) rest)"

text \<open>Lines 1896 to 1907. \<^verbatim>\<open>raise ValueError()\<close> carries no message. Adding the
  bias to \<^verbatim>\<open>None\<close> raises. A gate that was not built has no \<^verbatim>\<open>_w_list\<close> and no
  \<^verbatim>\<open>_b\<close>; \<^verbatim>\<open>Widget.setup\<close> does not call \<^verbatim>\<open>_setup\<close> on it.\<close>

definition Gate_setup :: "'t tf_ops \<Rightarrow> ('t, 'a) gate_scheme \<Rightarrow> 't list \<Rightarrow> error + 't" where
  "Gate_setup ops self x_list =
     (if length x_list \<noteq> length (gate_w_list self) then Inl (ValueError [])
      else
        (case gate_b self of
           None \<Rightarrow> Inl AttributeError
         | Some b \<Rightarrow>
             (case Gate_sum ops None (zip x_list (gate_w_list self)) of
                None \<Rightarrow> Inl TypeError
              | Some y \<Rightarrow> Inr (tf_sigmoid ops (tf_add ops y b)))))"

subsection \<open>\<^verbatim>\<open>GRUCell\<close>\<close>

text \<open>The parameters are the tensors that \<^verbatim>\<open>_build\<close> created; the biases are read
  only when \<^verbatim>\<open>with_bias\<close> holds.\<close>

record 't grucell = widget +
  gru_input_size :: int
  gru_state_size :: int
  gru_with_bias :: bool
  gru_activation :: "('t \<Rightarrow> 't) option"
  gru_wz :: 't
  gru_wr :: 't
  gru_wh :: 't
  gru_uz :: 't
  gru_ur :: 't
  gru_uh :: 't
  gru_bz :: 't
  gru_br :: 't
  gru_bh :: 't

text \<open>Lines 1196 to 1218.\<close>

definition GRUCell_setup :: "'t tf_ops \<Rightarrow> ('t, 'a) grucell_scheme \<Rightarrow> 't \<Rightarrow> 't \<Rightarrow> 't" where
  "GRUCell_setup ops self x h_prev =
     (let (z, r, h) =
        (if gru_with_bias self then
           let z = tf_sigmoid ops
                     (tf_add ops (tf_add ops (tf_matmul ops x (gru_wz self))
                                             (tf_matmul ops h_prev (gru_uz self))) (gru_bz self));
               r = tf_sigmoid ops
                     (tf_add ops (tf_add ops (tf_matmul ops x (gru_wr self))
                                             (tf_matmul ops h_prev (gru_ur self))) (gru_br self));
               h = tf_add ops (tf_add ops (tf_matmul ops x (gru_wh self))
                                          (tf_matmul ops (tf_multiply ops r h_prev) (gru_uh self)))
                     (gru_bh self)
           in (z, r, h)
         else
           let z = tf_sigmoid ops
                     (tf_add ops (tf_matmul ops x (gru_wz self)) (tf_matmul ops h_prev (gru_uz self)));
               r = tf_sigmoid ops
                     (tf_add ops (tf_matmul ops x (gru_wr self)) (tf_matmul ops h_prev (gru_ur self)));
               h = tf_add ops (tf_matmul ops x (gru_wh self))
                              (tf_matmul ops (tf_multiply ops r h_prev) (gru_uh self))
           in (z, r, h));
         h = (case gru_activation self of Some f \<Rightarrow> f h | None \<Rightarrow> h);
         h = tf_add ops (tf_multiply ops z h_prev)
                        (tf_multiply ops (tf_subtract ops (tf_constant ops 1) z) h)
     in h)"

text \<open>Lines 1280 and 1281, the check of \<^verbatim>\<open>GRUCell.setup_recursive\<close>; \<open>rest\<close> stands
  for lines 1283 to 1313, which build the recurrence with \<^verbatim>\<open>tf.scan\<close>.\<close>

definition GRUCell_setup_recursive ::
  "('t option \<Rightarrow> 't option \<Rightarrow> error + 'r) \<Rightarrow> 't option \<Rightarrow> 't option \<Rightarrow> error + 'r" where
  "GRUCell_setup_recursive rest init_state init_input =
     (if init_state = None \<and> init_input = None
      then Inl (ValueError ''init_state and init_input should not be None at the same time.'')
      else rest init_state init_input)"

subsection \<open>\<^verbatim>\<open>LSTMCell\<close>\<close>

record 't lstmcell = widget +
  lstm_input_size :: int
  lstm_state_size :: int
  lstm_with_bias :: bool
  lstm_activation :: "('t \<Rightarrow> 't) option"
  lstm_wi :: 't
  lstm_wf :: 't
  lstm_wo :: 't
  lstm_wc :: 't
  lstm_ui :: 't
  lstm_uf :: 't
  lstm_uo :: 't
  lstm_uc :: 't
  lstm_bi :: 't
  lstm_bf :: 't
  lstm_bo :: 't
  lstm_bc :: 't

text \<open>Lines 1523 to 1557. The local \<^verbatim>\<open>cell_state\<close> is assigned four times; the
  returned pair is the last value and the state.\<close>

definition LSTMCell_setup ::
  "'t tf_ops \<Rightarrow> ('t, 'a) lstmcell_scheme \<Rightarrow> 't \<Rightarrow> 't \<Rightarrow> 't \<Rightarrow> 't \<times> 't" where
  "LSTMCell_setup ops self x prev_cell_state prev_state =
     (let (input_gate, forget_gate, output_gate, cell_state) =
        (if lstm_with_bias self then
           let input_gate = tf_sigmoid ops
                 (tf_add ops (tf_add ops (tf_matmul ops x (lstm_wi self))
                                         (tf_matmul ops prev_state (lstm_ui self))) (lstm_bi self));
               forget_gate = tf_sigmoid ops
                 (tf_add ops (tf_add ops (tf_matmul ops x (lstm_wf self))
                                         (tf_matmul ops prev_state (lstm_uf self))) (lstm_bf self));
               output_gate = tf_sigmoid ops
                 (tf_add ops (tf_add ops (tf_matmul ops x (lstm_wo self))
                                         (tf_matmul ops prev_state (lstm_uo self))) (lstm_bo self));
               cell_state =
                 tf_add ops (tf_add ops (tf_matmul ops x (lstm_wc self))
                                        (tf_matmul ops prev_state (lstm_uc self))) (lstm_bc self)
           in (input_gate, forget_gate, output_gate, cell_state)
         else
           let input_gate = tf_sigmoid ops
                 (tf_add ops (tf_matmul ops x (lstm_wi self))
                             (tf_matmul ops prev_state (lstm_ui self)));
               forget_gate = tf_sigmoid ops
                 (tf_add ops (tf_matmul ops x (lstm_wf self))
                             (tf_matmul ops prev_state (lstm_uf self)));
               output_gate = tf_sigmoid ops
                 (tf_add ops (tf_matmul ops x (lstm_wo self))
                             (tf_matmul ops prev_state (lstm_uo self)));
               cell_state =
                 tf_add ops (tf_matmul ops x (lstm_wc self))
                            (tf_matmul ops prev_state (lstm_uc self))
           in (input_gate, forget_gate, output_gate, cell_state));
         cell_state = (case lstm_activation self of Some f \<Rightarrow> f cell_state | None \<Rightarrow> cell_state);
         cell_state = tf_add ops (tf_multiply ops forget_gate prev_cell_state)
                                 (tf_multiply ops input_gate cell_state);
         cell_state = (case lstm_activation self of Some f \<Rightarrow> f cell_state | None \<Rightarrow> cell_state);
         state = tf_multiply ops output_gate cell_state
     in (cell_state, state))"

text \<open>Lines 1630 and 1631, the check of \<^verbatim>\<open>LSTMCell.setup_recursive\<close>; \<open>rest\<close> stands
  for lines 1633 to 1669.\<close>

definition LSTMCell_setup_recursive ::
  "('t option \<Rightarrow> 't option \<Rightarrow> 't option \<Rightarrow> error + 'r)
     \<Rightarrow> 't option \<Rightarrow> 't option \<Rightarrow> 't option \<Rightarrow> error + 'r" where
  "LSTMCell_setup_recursive rest init_cell_state init_state init_input =
     (if init_state = None \<and> init_input = None
      then Inl (ValueError ''init_state and init_input should not be None at the same time.'')
      else rest init_cell_state init_state init_input)"

section \<open>The notions of the specification, and example objects\<close>



text \<open>A malformed name: not a string, the empty string, or a string that differs from
  its whitespace-stripped form.\<close>

definition malformed_name :: "name_arg \<Rightarrow> bool" where
  "malformed_name name =
     (case name of PyNone \<Rightarrow> False | PyNotStr \<Rightarrow> True | PyStr n \<Rightarrow> n = [] \<or> strip n \<noteq> n)"




text \<open>The fully-qualified name: the enclosing scope joined with the widget's name.\<close>

definition qualified_name :: "string \<Rightarrow> string \<Rightarrow> string" where
  "qualified_name scope n =
     (if scope = [] then n else if endswith scope ''/'' then scope @ n else scope @ ''/'' @ n)"

text \<open>\<^verbatim>\<open>Conv2D('layer', (28, 28, 1), 8, stride_height=2, stride_width=2)\<close> at the point
  where its constructor calls \<^verbatim>\<open>build\<close>; the widget and the state after that call, from
  an empty graph and registry.\<close>

definition example_conv :: conv2d where
  "example_conv =
     \<lparr>self_name = Some ''layer'', self_scope = [], self_full_name = None,
      self_prefix = None, self_built = False,
      conv_input_height = 28, conv_input_width = 28,
      conv_input_channels = 1, conv_output_channels = 8,
      conv_filter_height = 3, conv_filter_width = 3,
      conv_stride_height = 2, conv_stride_width = 2,
      conv_padding = ''SAME'', conv_flat_output = False,
      conv_output_height = 14, conv_output_width = 14,
      conv_flat_size = 1568\<rparr>"

definition built_conv :: conv2d where
  "built_conv = fst (snd (build Conv2D_build example_conv world0))"

definition built_world :: world where
  "built_world = snd (snd (build Conv2D_build example_conv world0))"

text \<open>Tensors of shape (1, 1) as real numbers, every variable holding 0.\<close>

definition scalar_ops :: "real tf_ops" where
  "scalar_ops =
     \<lparr>tf_matmul = (\<lambda>a b. a * b), tf_add = (\<lambda>a b. a + b), tf_multiply = (\<lambda>a b. a * b),
      tf_subtract = (\<lambda>a b. a - b), tf_sigmoid = (\<lambda>a. 1 / (1 + exp (- a))),
      tf_constant = (\<lambda>c. c), tf_handle = (\<lambda>n. 0)\<rparr>"

text \<open>\<^verbatim>\<open>Gate('gate', (3, 4), 5)\<close>, constructed from an empty graph and registry.\<close>

definition example_gate :: "real gate" where
  "example_gate = projr (fst (Gate_init scalar_ops (PyStr ''gate'') (PySeq [3, 4]) 5 world0))"

text \<open>The published recurrences. An affine form \<open>x W + h U [+ b]\<close>, an optional
  activation, the GRU step and the LSTM step, which returns the cell state \<open>c\<close> and the
  output state \<open>h\<close>.\<close>

definition affine :: "'t tf_ops \<Rightarrow> bool \<Rightarrow> 't \<Rightarrow> 't \<Rightarrow> 't \<Rightarrow> 't \<Rightarrow> 't \<Rightarrow> 't" where
  "affine ops with_bias x W h U b =
     (if with_bias then tf_add ops (tf_add ops (tf_matmul ops x W) (tf_matmul ops h U)) b
      else tf_add ops (tf_matmul ops x W) (tf_matmul ops h U))"

definition activate :: "('t \<Rightarrow> 't) option \<Rightarrow> 't \<Rightarrow> 't" where
  "activate activation a = (case activation of None \<Rightarrow> a | Some f \<Rightarrow> f a)"

definition published_gru :: "'t tf_ops \<Rightarrow> ('t, 'a) grucell_scheme \<Rightarrow> 't \<Rightarrow> 't \<Rightarrow> 't" where
  "published_gru ops self x h_prev =
     (let z = tf_sigmoid ops
                (affine ops (gru_with_bias self) x (gru_wz self) h_prev (gru_uz self) (gru_bz self));
          r = tf_sigmoid ops
                (affine ops (gru_with_bias self) x (gru_wr self) h_prev (gru_ur self) (gru_br self));
          h_cand = activate (gru_activation self)
                (affine ops (gru_with_bias self) x (gru_wh self)
                   (tf_multiply ops r h_prev) (gru_uh self) (gru_bh self))
      in tf_add ops (tf_multiply ops z h_prev)
                    (tf_multiply ops (tf_subtract ops (tf_constant ops 1) z) h_cand))"

definition published_lstm ::
  "'t tf_ops \<Rightarrow> ('t, 'a) lstmcell_scheme \<Rightarrow> 't \<Rightarrow> 't \<Rightarrow> 't \<Rightarrow> 't \<times> 't" where
  "published_lstm ops self x c_prev h_prev =
     (let gate_i = tf_sigmoid ops
                (affine ops (lstm_with_bias self) x (lstm_wi self) h_prev (lstm_ui self) (lstm_bi self));
          gate_f = tf_sigmoid ops
                (affine ops (lstm_with_bias self) x (lstm_wf self) h_prev (lstm_uf self) (lstm_bf self));
          gate_o = tf_sigmoid ops
                (affine ops (lstm_with_bias self) x (lstm_wo self) h_prev (lstm_uo self) (lstm_bo self));
          c_cand = activate (lstm_activation self)
                (affine ops (lstm_with_bias self) x (lstm_wc self) h_prev (lstm_uc self) (lstm_bc self));
          c = tf_add ops (tf_multiply ops gate_f c_prev) (tf_multiply ops gate_i c_cand);
          h = tf_multiply ops gate_o (activate (lstm_activation self) c)
      in (c, h))"

text \<open>An \<^verbatim>\<open>LSTMCell('lstm', 1, 1)\<close> after \<^verbatim>\<open>build\<close>, with the default
  \<^verbatim>\<open>tanh\<close> activation and all parameters 0.\<close>

definition example_lstm :: "real lstmcell" where
  "example_lstm =
     \<lparr>self_name = Some ''lstm'', self_scope = [], self_full_name = Some ''lstm'',
      self_prefix = Some ''lstm/'', self_built = True,
      lstm_input_size = 1, lstm_state_size = 1, lstm_with_bias = True,
      lstm_activation = Some tanh,
      lstm_wi = 0, lstm_wf = 0, lstm_wo = 0, lstm_wc = 0,
      lstm_ui = 0, lstm_uf = 0, lstm_uo = 0, lstm_uc = 0,
      lstm_bi = 0, lstm_bf = 0, lstm_bo = 0, lstm_bc = 0\<rparr>"

section \<open>Properties\<close>

subsection \<open>Evaluation of the constructors on concrete arguments\<close>

lemmas init_evals = Conv2D_init_def GroupConv2D_init_def Pool2D_init_def output_hw_def
  math_ceil_div_def Widget_init_def check_name_def strip_def isspace_def build_def
  make_full_name_def build_in_scope_def named_def Conv2D_build_def GroupConv2D_build_def
  Pool2D_build_def register_def tf_Variable_def variable_name_def variable_scope_def
  world0_def widget.truncate_def Let_def endswith_def str_of_def

subsection \<open>The subclass fields survive the base constructor\<close>










subsection \<open>Output sizes\<close>




subsection \<open>Building twice\<close>

text \<open>C4: \<^verbatim>\<open>build\<close> on a widget that is already built returns the widget at once. The
  result is the same for every \<^verbatim>\<open>_build\<close> method, so none is run: no parameter is
  created, no scope is entered and the registry is as it was.\<close>

theorem build_of_built_widget:
  "self_built self \<Longrightarrow> build hook self s = (Inr (), self, s)"
  by (simp add: build_def)

theorem build_of_built_widget_witness:
  "\<exists>c s. Conv2D_init (PyStr ''layer'') (PySeq [28, 28, 1]) 8 3 3 2 2 ''SAME'' False world0
            = (Inr c, s) \<and>
     self_built c \<and> build Widget_build c s = (Inr (), c, s) \<and>
     build Conv2D_build c s = (Inr (), c, s)"
proof -
  have "\<exists>c s. Conv2D_init (PyStr ''layer'') (PySeq [28, 28, 1]) 8 3 3 2 2 ''SAME'' False world0
            = (Inr c, s) \<and> self_built c"
    by (simp add: init_evals)
  then obtain c s where c:
    "Conv2D_init (PyStr ''layer'') (PySeq [28, 28, 1]) 8 3 3 2 2 ''SAME'' False world0 = (Inr c, s)"
    "self_built c"
    by blast
  from build_of_built_widget[OF c(2), of Widget_build s]
    build_of_built_widget[OF c(2), of Conv2D_build s] c
  show ?thesis by blast
qed

subsection \<open>Widgets without a name\<close>

lemma build_None_fails:
  "\<not> self_built self \<Longrightarrow> self_name self = None \<Longrightarrow> \<exists>e. fst (build hook self s) = Inl e"
  by (auto simp: build_def make_full_name_def build_in_scope_def named_def str_of_def
      split: sum.splits option.splits prod.splits)

lemma Widget_init_None:
  assumes "Widget_init hook self PyNone b s = (Inr w, s')"
  shows "self_name w = None \<and> \<not> b"
proof (cases b)
  case True
  define self1 where "self1 = self\<lparr>self_name := None, self_scope := [], self_full_name := None,
                           self_prefix := None, self_built := False\<rparr>"
  have "\<exists>e. fst (build hook self1 s) = Inl e"
    by (rule build_None_fails) (simp_all add: self1_def)
  then obtain e where "fst (build hook self1 s) = Inl e" ..
  with assms True show ?thesis
    by (auto simp: Widget_init_def check_name_def self1_def split: prod.splits sum.splits)
next
  case False
  with assms show ?thesis
    by (auto simp: Widget_init_def check_name_def)
qed

text \<open>C10: a widget constructed with the name \<^verbatim>\<open>None\<close> has no variables and no
  trainable variables, whatever the graph \<open>t\<close> holds.\<close>

theorem unnamed_widget_has_no_variables:
  "Widget_init hook self PyNone do_build s = (Inr w, s') \<Longrightarrow>
     get_variables w t = Inr [] \<and> get_trainable_variables w t = Inr []"
  by (drule Widget_init_None) (simp add: get_variables_def get_trainable_variables_def)

theorem unnamed_widget_has_no_variables_witness:
  "\<exists>w s'. Widget_init Widget_build blank PyNone False world0 = (Inr w, s') \<and>
     global_variables (tf_Variable ''w'' True world0) \<noteq> [] \<and>
     get_variables w (tf_Variable ''w'' True world0) = Inr [] \<and>
     get_trainable_variables w (tf_Variable ''w'' True world0) = Inr []"
proof -
  have "\<exists>w s'. Widget_init Widget_build blank PyNone False world0 = (Inr w, s')"
    by (simp add: Widget_init_def check_name_def)
  then obtain w s' where w: "Widget_init Widget_build blank PyNone False world0 = (Inr w, s')"
    by blast
  from unnamed_widget_has_no_variables[OF w, of "tf_Variable ''w'' True world0"] w
  show ?thesis by (auto simp: tf_Variable_def)
qed

subsection \<open>The name check of the constructor\<close>

lemma dropWhile_same_length:
  "length (dropWhile P xs) = length xs \<Longrightarrow> dropWhile P xs = xs"
proof -
  assume a: "length (dropWhile P xs) = length xs"
  have "length (takeWhile P xs) + length (dropWhile P xs) = length xs"
    by (metis length_append takeWhile_dropWhile_id)
  with a have "takeWhile P xs = []" by simp
  then show ?thesis by (metis append_Nil takeWhile_dropWhile_id)
qed

lemma strip_length_iff: "length (strip n) \<noteq> length n \<longleftrightarrow> strip n \<noteq> n"
proof
  assume "length (strip n) \<noteq> length n"
  then show "strip n \<noteq> n" by auto
next
  assume neq: "strip n \<noteq> n"
  show "length (strip n) \<noteq> length n"
  proof
    assume eq: "length (strip n) = length n"
    have l1: "length (dropWhile isspace (rev (dropWhile isspace n))) \<le> length (dropWhile isspace n)"
      by (metis length_dropWhile_le length_rev)
    have l2: "length (dropWhile isspace n) \<le> length n"
      by (rule length_dropWhile_le)
    from eq have "length (dropWhile isspace (rev (dropWhile isspace n))) = length n"
      by (simp add: strip_def)
    with l1 l2 have e1: "length (dropWhile isspace n) = length n"
      and e2: "length (dropWhile isspace (rev (dropWhile isspace n))) = length (rev (dropWhile isspace n))"
      by simp_all
    from e1 have d1: "dropWhile isspace n = n" by (rule dropWhile_same_length)
    from e2 have "dropWhile isspace (rev (dropWhile isspace n)) = rev (dropWhile isspace n)"
      by (rule dropWhile_same_length)
    with d1 have "strip n = n" by (simp add: strip_def)
    with neq show False by contradiction
  qed
qed

lemma check_name_malformed: "isl (check_name name) \<longleftrightarrow> malformed_name name"
  using strip_length_iff by (cases name) (auto simp: check_name_def malformed_name_def)



subsection \<open>Setting parameters\<close>









subsection \<open>Building and the registry\<close>

lemma make_full_name_Some: "make_full_name scope (Some n) = Inr (Some (qualified_name scope n))"
  by (simp add: make_full_name_def qualified_name_def str_of_def)

lemma build_unbuilt_named:
  assumes "\<not> self_built self" and "self_name self = Some n"
    and "hook (named self s (qualified_name (var_scope s) n))
              (s\<lparr>var_scope := variable_scope (var_scope s) n\<rparr>) = (Inr (), w, t)"
  shows "build hook self s =
     (if qualified_name (var_scope s) n \<in> dom (INSTANCES t)
      then (Inl (duplicated (qualified_name (var_scope s) n)),
            w\<lparr>self_built := True\<rparr>, t\<lparr>var_scope := var_scope s\<rparr>)
      else (Inr (), w\<lparr>self_built := True\<rparr>,
            t\<lparr>var_scope := var_scope s,
              INSTANCES := (INSTANCES t)(qualified_name (var_scope s) n \<mapsto>
                              widget.truncate (w\<lparr>self_built := True\<rparr>))\<rparr>))"
proof -
  have n: "self_name (named self s (qualified_name (var_scope s) n)) = Some n"
    using assms(2) by (simp add: named_def)
  have "build_in_scope hook (named self s (qualified_name (var_scope s) n)) s =
          (Inr (), w\<lparr>self_built := True\<rparr>, t\<lparr>var_scope := var_scope s\<rparr>)"
    using assms(3) n by (simp add: build_in_scope_def)
  with assms(1,2) show ?thesis
    by (simp add: build_def make_full_name_Some register_def)
qed

lemma built_conv_eval:
  "self_built built_conv \<and> self_name built_conv = Some ''layer'' \<and>
   self_full_name built_conv = Some ''layer'' \<and> self_prefix built_conv = Some ''layer/''"
  by (simp add: built_conv_def example_conv_def init_evals)

lemma built_world_eval:
  "var_scope built_world = [] \<and>
   map var_name (global_variables built_world) = [''layer/w:0'', ''layer/b:0''] \<and>
   dom (INSTANCES built_world) = {''layer''}"
  by (simp add: built_world_def example_conv_def init_evals)

lemma example_conv_eval:
  "\<not> self_built example_conv \<and> self_name example_conv = Some ''layer''"
  by (simp add: example_conv_def)

lemma qualified_name_root: "qualified_name [] n = n"
  by (simp add: qualified_name_def)

text \<open>C2, as the code has it: for a widget with a name that is not yet built and whose \<^verbatim>\<open>_build\<close>
  returns, \<^verbatim>\<open>build\<close> raises exactly when the fully-qualified name is in the registry at
  the check, which follows \<^verbatim>\<open>_build\<close>; the error is then the duplicate-name error.
  Otherwise \<^verbatim>\<open>build\<close> succeeds and the registry holds the widget under that name.\<close>

theorem build_rejects_iff_registered:
  assumes "\<not> self_built self" and "self_name self = Some n"
    and "hook (named self s (qualified_name (var_scope s) n))
              (s\<lparr>var_scope := variable_scope (var_scope s) n\<rparr>) = (Inr (), w, t)"
  shows "(isl (fst (build hook self s)) \<longleftrightarrow> qualified_name (var_scope s) n \<in> dom (INSTANCES t)) \<and>
    (fst (build hook self s) = Inl (duplicated (qualified_name (var_scope s) n))
       \<longleftrightarrow> qualified_name (var_scope s) n \<in> dom (INSTANCES t)) \<and>
    (qualified_name (var_scope s) n \<notin> dom (INSTANCES t) \<longrightarrow>
       fst (build hook self s) = Inr () \<and>
       INSTANCES (snd (snd (build hook self s))) =
         (INSTANCES t)(qualified_name (var_scope s) n \<mapsto>
            widget.truncate (fst (snd (build hook self s)))))"
proof -
  have "build hook self s =
     (if qualified_name (var_scope s) n \<in> dom (INSTANCES t)
      then (Inl (duplicated (qualified_name (var_scope s) n)),
            w\<lparr>self_built := True\<rparr>, t\<lparr>var_scope := var_scope s\<rparr>)
      else (Inr (), w\<lparr>self_built := True\<rparr>,
            t\<lparr>var_scope := var_scope s,
              INSTANCES := (INSTANCES t)(qualified_name (var_scope s) n \<mapsto>
                              widget.truncate (w\<lparr>self_built := True\<rparr>))\<rparr>))"
    using assms by (rule build_unbuilt_named)
  then show ?thesis by simp
qed

theorem build_rejects_iff_registered_witness:
  "\<not> self_built example_conv \<and> self_name example_conv = Some ''layer'' \<and>
   ''layer'' \<notin> dom (INSTANCES world0) \<and>
   fst (build Conv2D_build example_conv world0) = Inr () \<and>
   dom (INSTANCES (snd (snd (build Conv2D_build example_conv world0)))) = {''layer''} \<and>
   ''layer'' \<in> dom (INSTANCES built_world) \<and>
   fst (build Conv2D_build example_conv built_world) = Inl (duplicated ''layer'')"
proof -
  have b: "\<not> self_built example_conv" and n: "self_name example_conv = Some ''layer''"
    by (simp_all add: example_conv_def)
  have h: "Conv2D_build (named example_conv s (qualified_name (var_scope s) ''layer''))
             (s\<lparr>var_scope := variable_scope (var_scope s) ''layer''\<rparr>)
           = (Inr (), named example_conv s (qualified_name (var_scope s) ''layer''),
              tf_Variable ''b'' True (tf_Variable ''w'' True
                (s\<lparr>var_scope := variable_scope (var_scope s) ''layer''\<rparr>)))" for s
    by (simp add: Conv2D_build_def)
  from build_rejects_iff_registered[where hook = Conv2D_build and s = world0, OF b n h[of world0]]
    build_rejects_iff_registered[where hook = Conv2D_build and s = built_world,
      OF b n h[of built_world]]
    b n built_world_eval
  show ?thesis
    by (simp add: qualified_name_def tf_Variable_def world0_def)
qed

theorem build_not_iff_registered_counterexample:
  "self_name built_conv = Some ''layer'' \<and> self_full_name built_conv = Some ''layer'' \<and>
   ''layer'' \<in> dom (INSTANCES built_world) \<and>
   build Conv2D_build built_conv built_world = (Inr (), built_conv, built_world) \<and>
   self_name (blank\<lparr>self_name := Some ''other''\<rparr>) = Some ''other'' \<and>
   ''other'' \<notin> dom (INSTANCES built_world) \<and>
   fst (build Widget_build (blank\<lparr>self_name := Some ''other''\<rparr>) built_world)
     = Inl NotImplementedError"
  using built_conv_eval built_world_eval
  by (simp add: build_def blank_def make_full_name_def build_in_scope_def named_def
      Widget_build_def)

text \<open>C3, as the code has it: when \<^verbatim>\<open>build\<close> raises the duplicate-name error after \<^verbatim>\<open>_build\<close> has
  returned, the registry and the variables are as \<^verbatim>\<open>_build\<close> left them, the scope is the
  one of the call, and the widget is the one \<^verbatim>\<open>_build\<close> returned, marked as built.\<close>

theorem duplicate_error_comes_after_build:
  assumes "\<not> self_built self" and "self_name self = Some n"
    and "hook (named self s (qualified_name (var_scope s) n))
              (s\<lparr>var_scope := variable_scope (var_scope s) n\<rparr>) = (Inr (), w, t)"
    and "fst (build hook self s) = Inl (duplicated (qualified_name (var_scope s) n))"
  shows "build hook self s =
           (Inl (duplicated (qualified_name (var_scope s) n)),
            w\<lparr>self_built := True\<rparr>, t\<lparr>var_scope := var_scope s\<rparr>) \<and>
    self_built (fst (snd (build hook self s))) \<and>
    INSTANCES (snd (snd (build hook self s))) = INSTANCES t \<and>
    global_variables (snd (snd (build hook self s))) = global_variables t \<and>
    var_scope (snd (snd (build hook self s))) = var_scope s"
proof -
  have "build hook self s =
     (if qualified_name (var_scope s) n \<in> dom (INSTANCES t)
      then (Inl (duplicated (qualified_name (var_scope s) n)),
            w\<lparr>self_built := True\<rparr>, t\<lparr>var_scope := var_scope s\<rparr>)
      else (Inr (), w\<lparr>self_built := True\<rparr>,
            t\<lparr>var_scope := var_scope s,
              INSTANCES := (INSTANCES t)(qualified_name (var_scope s) n \<mapsto>
                              widget.truncate (w\<lparr>self_built := True\<rparr>))\<rparr>))"
    using assms(1-3) by (rule build_unbuilt_named)
  with assms(4) show ?thesis by (simp split: if_splits)
qed

theorem duplicate_error_comes_after_build_witness:
  "\<not> self_built example_conv \<and> self_name example_conv = Some ''layer'' \<and>
   fst (build Conv2D_build example_conv built_world) = Inl (duplicated ''layer'') \<and>
   self_built (fst (snd (build Conv2D_build example_conv built_world))) \<and>
   INSTANCES (snd (snd (build Conv2D_build example_conv built_world))) = INSTANCES built_world \<and>
   length (global_variables (snd (snd (build Conv2D_build example_conv built_world))))
     = length (global_variables built_world) + 2 \<and>
   var_scope (snd (snd (build Conv2D_build example_conv built_world))) = var_scope built_world"
proof -
  have b: "\<not> self_built example_conv" and n: "self_name example_conv = Some ''layer''"
    by (simp_all add: example_conv_def)
  have h: "Conv2D_build (named example_conv built_world (qualified_name (var_scope built_world) ''layer''))
             (built_world\<lparr>var_scope := variable_scope (var_scope built_world) ''layer''\<rparr>)
           = (Inr (), named example_conv built_world (qualified_name (var_scope built_world) ''layer''),
              tf_Variable ''b'' True (tf_Variable ''w'' True
                (built_world\<lparr>var_scope := variable_scope (var_scope built_world) ''layer''\<rparr>)))"
    by (simp add: Conv2D_build_def)
  have d: "fst (build Conv2D_build example_conv built_world)
             = Inl (duplicated (qualified_name (var_scope built_world) ''layer''))"
    using build_unbuilt_named[where hook = Conv2D_build, OF b n h] built_world_eval
    by (simp add: qualified_name_def tf_Variable_def)
  from duplicate_error_comes_after_build[where hook = Conv2D_build, OF b n h d] b n built_world_eval
  show ?thesis
    by (simp add: qualified_name_def tf_Variable_def variable_name_def variable_scope_def)
qed

theorem duplicate_error_state_counterexample:
  "\<not> self_built example_conv \<and>
   fst (build Conv2D_build example_conv built_world) = Inl (duplicated ''layer'') \<and>
   self_built (fst (snd (build Conv2D_build example_conv built_world))) \<and>
   length (global_variables built_world) = 2 \<and>
   length (global_variables (snd (snd (build Conv2D_build example_conv built_world)))) = 4"
proof -
  have len: "length (global_variables built_world) = 2"
    using built_world_eval by (metis length_map length_Cons list.size(3) numeral_2_eq_2)
  have "''layer'' \<in> dom (INSTANCES built_world)" and "var_scope built_world = []"
    using built_world_eval by simp_all
  with len show ?thesis
    by (simp add: build_def example_conv_def make_full_name_def build_in_scope_def named_def
        Conv2D_build_def register_def tf_Variable_def)
qed

subsection \<open>Mode strings\<close>

lemma output_hw_isl:
  "isl (output_hw padding ih iw fh fw sh sw) \<longleftrightarrow> sh = 0 \<or> sw = 0"
  by (simp add: output_hw_def math_ceil_div_def)

lemma output_hw_error:
  "output_hw padding ih iw fh fw sh sw = Inl e \<Longrightarrow> output_hw padding' ih' iw' fh' fw' sh sw = Inl e"
  by (auto simp add: output_hw_def math_ceil_div_def split: if_splits)













subsection \<open>Checks after construction\<close>

lemma Gate_build_loop_length:
  "length (fst (Gate_build_loop ops i sizes w_list s)) = length w_list + length sizes"
  by (induction sizes arbitrary: i w_list s) (auto simp: variable_def)

lemma Widget_init_built:
  assumes "Widget_init hook self name True s = (Inr w, s')"
  shows "\<exists>n w0 t. name = PyStr n \<and>
    hook (named (self\<lparr>self_name := Some n, self_scope := [], self_full_name := None,
                       self_prefix := None, self_built := False\<rparr>) s
                (qualified_name (var_scope s) n))
         (s\<lparr>var_scope := variable_scope (var_scope s) n\<rparr>) = (Inr (), w0, t) \<and>
    w = w0\<lparr>self_built := True\<rparr>"
proof -
  from assms obtain nm where nm: "check_name name = Inr nm"
    by (auto simp: Widget_init_def split: sum.splits)
  define self1 where "self1 = self\<lparr>self_name := nm, self_scope := [], self_full_name := None,
                       self_prefix := None, self_built := False\<rparr>"
  from assms nm have b: "fst (build hook self1 s) = Inr ()" "fst (snd (build hook self1 s)) = w"
    by (auto simp: Widget_init_def self1_def split: sum.splits prod.splits)
  have "nm \<noteq> None"
  proof
    assume "nm = None"
    then have "\<exists>e. fst (build hook self1 s) = Inl e"
      by (intro build_None_fails) (simp_all add: self1_def)
    with b show False by simp
  qed
  then obtain n where n: "nm = Some n" by auto
  with nm have name: "name = PyStr n"
    by (cases name) (auto simp: check_name_def split: if_splits)
  obtain r w0 t where h: "hook (named self1 s (qualified_name (var_scope s) n))
         (s\<lparr>var_scope := variable_scope (var_scope s) n\<rparr>) = (r, w0, t)"
    by (metis prod_cases3)
  have sn: "self_name (named self1 s (qualified_name (var_scope s) n)) = Some n"
    by (simp add: named_def self1_def n)
  have r: "r = Inr ()"
  proof (cases r)
    case (Inl e)
    with h sn have "fst (build hook self1 s) = Inl e"
      by (simp add: build_def self1_def n make_full_name_Some build_in_scope_def)
    with b show ?thesis by simp
  next
    case (Inr u)
    then show ?thesis by simp
  qed
  have nb: "\<not> self_built self1" and sn1: "self_name self1 = Some n"
    by (simp_all add: self1_def n)
  from build_unbuilt_named[where hook = hook, OF nb sn1 h[unfolded r]] b
  have "w = w0\<lparr>self_built := True\<rparr>" by (simp split: if_splits)
  with name h r show ?thesis unfolding self1_def n by blast
qed

lemma Gate_init_Inr:
  assumes "Gate_init ops name input_sizes output_size s = (Inr g, s')"
  shows "self_built g \<and> self_name g \<noteq> None \<and> self_prefix g \<noteq> None \<and> gate_b g \<noteq> None \<and>
    length (gate_w_list g) = (case input_sizes of PySeq xs \<Rightarrow> length xs | PyInt k \<Rightarrow> 1)"
proof -
  define sizes where "sizes = (case input_sizes of PySeq xs \<Rightarrow> xs | PyInt k \<Rightarrow> [k])"
  define self0 :: "'a gate" where "self0 =
     \<lparr>self_name = None, self_scope = [], self_full_name = None,
      self_prefix = None, self_built = False,
      gate_input_sizes = sizes, gate_output_size = output_size,
      gate_w_list = [], gate_b = None\<rparr>"
  from assms have "Widget_init (Gate_build ops) self0 name True s = (Inr g, s')"
    by (simp add: Gate_init_def self0_def sizes_def)
  from Widget_init_built[OF this] obtain n w0 t where
    h: "Gate_build ops (named (self0\<lparr>self_name := Some n, self_scope := [], self_full_name := None,
                       self_prefix := None, self_built := False\<rparr>) s
                (qualified_name (var_scope s) n))
         (s\<lparr>var_scope := variable_scope (var_scope s) n\<rparr>) = (Inr (), w0, t)"
    and g: "g = w0\<lparr>self_built := True\<rparr>"
    by blast
  obtain ws s1 where loop:
    "Gate_build_loop ops 0 sizes [] (s\<lparr>var_scope := variable_scope (var_scope s) n\<rparr>) = (ws, s1)"
    by (cases "Gate_build_loop ops 0 sizes [] (s\<lparr>var_scope := variable_scope (var_scope s) n\<rparr>)")
  have len: "length ws = length sizes"
    using Gate_build_loop_length[of ops 0 sizes "[]" "s\<lparr>var_scope := variable_scope (var_scope s) n\<rparr>"]
      loop by simp
  from h loop have "self_name w0 = Some n \<and> self_prefix w0 \<noteq> None \<and> gate_b w0 \<noteq> None \<and>
      gate_w_list w0 = ws"
    by (auto simp: Gate_build_def variable_def named_def self0_def)
  with g len show ?thesis
    by (auto simp: sizes_def split: size_arg.splits)
qed

lemma example_gate_constructed:
  "\<exists>s'. Gate_init scalar_ops (PyStr ''gate'') (PySeq [3, 4]) 5 world0 = (Inr example_gate, s')"
proof -
  have "\<exists>g s'. Gate_init scalar_ops (PyStr ''gate'') (PySeq [3, 4]) 5 world0 = (Inr g, s')"
    by (simp add: Gate_init_def Gate_build_def variable_def init_evals)
  then obtain g s' where g: "Gate_init scalar_ops (PyStr ''gate'') (PySeq [3, 4]) 5 world0 = (Inr g, s')"
    by blast
  then have "example_gate = g" by (simp add: example_gate_def)
  with g show ?thesis by blast
qed

text \<open>C8, as the code has it: argument checks are not limited to the constructors. On a widget that
  is built and named, \<^verbatim>\<open>setup\<close> is the subclass's \<^verbatim>\<open>_setup\<close> and adds no error of its
  own. The \<^verbatim>\<open>setup\<close> of a constructed \<^verbatim>\<open>Gate\<close> raises the ValueError of line 1898 exactly
  when the number of tensors differs from the number of input sizes, and
  \<^verbatim>\<open>setup_recursive\<close> of \<^verbatim>\<open>GRUCell\<close> and of \<^verbatim>\<open>LSTMCell\<close> raises ValueError when
  \<^verbatim>\<open>init_state\<close> and \<^verbatim>\<open>init_input\<close> are both \<^verbatim>\<open>None\<close>.\<close>

theorem post_construction_checks:
  "(self_built self \<and> self_name self \<noteq> None \<and> self_prefix self \<noteq> None \<longrightarrow>
      Widget_setup hook self args = hook self args) \<and>
   (Gate_init ops name input_sizes output_size s = (Inr g, s') \<longrightarrow>
      (Widget_setup (Gate_setup ops) g x_list = Inl (ValueError []) \<longleftrightarrow>
         length x_list \<noteq> (case input_sizes of PySeq xs \<Rightarrow> length xs | PyInt k \<Rightarrow> 1))) \<and>
   GRUCell_setup_recursive rest None None =
     Inl (ValueError ''init_state and init_input should not be None at the same time.'') \<and>
   LSTMCell_setup_recursive rest' init_cell_state None None =
     Inl (ValueError ''init_state and init_input should not be None at the same time.'')"
proof (intro conjI impI)
  assume "self_built self \<and> self_name self \<noteq> None \<and> self_prefix self \<noteq> None"
  then show "Widget_setup hook self args = hook self args"
    by (auto simp: Widget_setup_def)
next
  assume "Gate_init ops name input_sizes output_size s = (Inr g, s')"
  from Gate_init_Inr[OF this]
  show "Widget_setup (Gate_setup ops) g x_list = Inl (ValueError []) \<longleftrightarrow>
         length x_list \<noteq> (case input_sizes of PySeq xs \<Rightarrow> length xs | PyInt k \<Rightarrow> 1)"
    by (auto simp: Widget_setup_def Gate_setup_def split: option.splits)
next
  show "GRUCell_setup_recursive rest None None =
     Inl (ValueError ''init_state and init_input should not be None at the same time.'')"
    by (simp add: GRUCell_setup_recursive_def)
next
  show "LSTMCell_setup_recursive rest' init_cell_state None None =
     Inl (ValueError ''init_state and init_input should not be None at the same time.'')"
    by (simp add: LSTMCell_setup_recursive_def)
qed


theorem post_construction_checks_witness:
  "\<exists>s'. Gate_init scalar_ops (PyStr ''gate'') (PySeq [3, 4]) 5 world0 = (Inr example_gate, s') \<and>
     self_built example_gate \<and> self_name example_gate \<noteq> None \<and>
     self_prefix example_gate \<noteq> None \<and>
     Widget_setup (Gate_setup scalar_ops) example_gate [1, 2]
       = Gate_setup scalar_ops example_gate [1, 2] \<and>
     Widget_setup (Gate_setup scalar_ops) example_gate [1, 2] \<noteq> Inl (ValueError []) \<and>
     Widget_setup (Gate_setup scalar_ops) example_gate [1] = Inl (ValueError [])"
proof -
  from example_gate_constructed obtain s' where
    g: "Gate_init scalar_ops (PyStr ''gate'') (PySeq [3, 4]) 5 world0 = (Inr example_gate, s')"
    by blast
  from Gate_init_Inr[OF g] have b: "self_built example_gate" "self_name example_gate \<noteq> None"
    "self_prefix example_gate \<noteq> None"
    by simp_all
  from post_construction_checks[of example_gate "Gate_setup scalar_ops" "[1, 2]" scalar_ops
      "PyStr ''gate''" "PySeq [3, 4]" 5 world0 example_gate s' "[1, 2]"
      "\<lambda>a b. Inr (0::real)" "\<lambda>a b c. Inr (0::real)" "None :: real option"]
    post_construction_checks[of example_gate "Gate_setup scalar_ops" "[1]" scalar_ops
      "PyStr ''gate''" "PySeq [3, 4]" 5 world0 example_gate s' "[1]"
      "\<lambda>a b. Inr (0::real)" "\<lambda>a b c. Inr (0::real)" "None :: real option"] g b
  show ?thesis by auto
qed

theorem setup_raises_counterexample:
  "fst (Gate_init scalar_ops (PyStr ''gate'') (PySeq [3, 4]) 5 world0) = Inr example_gate \<and>
   self_built example_gate \<and>
   Widget_setup (Gate_setup scalar_ops) example_gate [1] = Inl (ValueError []) \<and>
   GRUCell_setup_recursive (\<lambda>init_state init_input. Inr (0::real)) (None :: real option) None =
     Inl (ValueError ''init_state and init_input should not be None at the same time.'')"
proof -
  from example_gate_constructed obtain s' where
    g: "Gate_init scalar_ops (PyStr ''gate'') (PySeq [3, 4]) 5 world0 = (Inr example_gate, s')"
    by blast
  from Gate_init_Inr[OF g] g show ?thesis
    by (auto simp: Widget_setup_def Gate_setup_def GRUCell_setup_recursive_def)
qed

subsection \<open>The recurrent cells\<close>

text \<open>The GRU step is the published one, and so is the output state of the LSTM step.\<close>

lemma GRUCell_setup_published: "GRUCell_setup ops self x h_prev = published_gru ops self x h_prev"
  by (simp add: GRUCell_setup_def published_gru_def affine_def activate_def Let_def
      split: option.splits)

lemma LSTMCell_setup_state:
  "snd (LSTMCell_setup ops self x c_prev h_prev) = snd (published_lstm ops self x c_prev h_prev)"
  by (simp add: LSTMCell_setup_def published_lstm_def affine_def activate_def Let_def
      split: option.splits)

lemma LSTMCell_setup_cell_state:
  "fst (LSTMCell_setup ops self x c_prev h_prev) =
     activate (lstm_activation self) (fst (published_lstm ops self x c_prev h_prev))"
  by (simp add: LSTMCell_setup_def published_lstm_def affine_def activate_def Let_def
      split: option.splits)

text \<open>C5: the step functions compute the published recurrences. This holds for the GRU step
  and for the LSTM output state, but the cell state that \<^verbatim>\<open>LSTMCell._setup\<close> returns is
  the activation of the published cell state: with input 0, previous cell state 2 and
  previous state 0 the published cell state is 1 and the returned one is \<open>tanh 1\<close>.\<close>

theorem lstm_cell_state_is_activated:
  "LSTMCell_setup scalar_ops example_lstm 0 2 0 = (tanh 1, tanh 1 / 2) \<and>
   published_lstm scalar_ops example_lstm 0 2 0 = (1, tanh 1 / 2) \<and>
   tanh (1::real) \<noteq> 1"
proof -
  have "tanh (1::real) < 1" by (rule tanh_real_lt_1)
  then show ?thesis
    by (simp add: LSTMCell_setup_def published_lstm_def affine_def activate_def Let_def
        scalar_ops_def example_lstm_def)
qed

end
